theory Spec2Isabelle
  imports Complex_Main
begin

section \<open>Python values shared by the modules\<close>

text \<open>
  Free-form dictionaries (\<open>Message.metadata\<close>, \<open>Session.context\<close>, chunk metadata) are
  maps from keys to the values the code stores in them.
\<close>

datatype py_value = PyStr string | PyInt int

type_synonym py_dict = "string \<rightharpoonup> py_value"

text \<open>
  A Python \<open>str\<close> is the list of its code points, and a \<open>char\<close> is a code point below
  256: \<open>CHR 0xA0\<close> is U+00A0. Strings with code points from 256 on are outside the
  model.
\<close>

definition is_space :: "char \<Rightarrow> bool" where
  \<comment> \<open>\<open>str.isspace\<close> on one character, which is what \<open>str.strip()\<close> removes: the code
      points below 256 that Unicode classes as white space\<close>
  "is_space c = (c \<in> {CHR 0x09, CHR 0x0A, CHR 0x0B, CHR 0x0C, CHR 0x0D,
                        CHR 0x1C, CHR 0x1D, CHR 0x1E, CHR 0x1F, CHR 0x20,
                        CHR 0x85, CHR 0xA0})"

definition strip :: "string \<Rightarrow> string" where
  "strip s = rev (dropWhile is_space (rev (dropWhile is_space s)))"

definition truthy :: "string option \<Rightarrow> bool" where
  \<comment> \<open>truth value of an \<open>Optional[str]\<close>: neither \<open>None\<close> nor the empty string\<close>
  "truthy v = (case v of None \<Rightarrow> False | Some s \<Rightarrow> s \<noteq> [])"

section \<open>memory.py: sessions and messages\<close>

record message =
  role :: string
  content :: string
  timestamp :: string
  metadata :: py_dict

record session =
  session_id :: string
  user_name :: string
  user_persona :: string
  model :: string
  created_at :: string
  updated_at :: string
  messages :: "message list"
  session_context :: py_dict

subsection \<open>The two persistence backends\<close>

text \<open>
  SQLite: table \<open>sessions\<close> has \<open>session_id\<close> as primary key, so it is a map from the id
  to the other columns. Table \<open>messages\<close> has an \<open>AUTOINCREMENT\<close> key \<open>id\<close>: every insert
  gets an id above all earlier ones, so the table is the list of its rows in ascending
  \<open>id\<close>, an insert appends, and \<open>ORDER BY id\<close> is the order of the list.
  Failures of the database or file system themselves (disk full, locked file) are not
  modelled: every statement runs.
\<close>

record session_row =
  row_user_name :: string
  row_user_persona :: string
  row_model :: string
  row_created_at :: string
  row_updated_at :: string
  row_context :: py_dict

record message_row =
  msg_session_id :: string
  msg_role :: string
  msg_content :: string
  msg_timestamp :: string
  msg_metadata :: py_dict

record database =
  sessions_table :: "string \<rightharpoonup> session_row"
  messages_table :: "message_row list"

text \<open>
  JSON files: the storage directory is a map from file names to contents. A file holds
  the dump of a session, or nothing at all right after \<open>open(path, 'w')\<close> has truncated
  it. The directory holds files only (the manager makes no subdirectory), on a POSIX file
  system, and nothing outside it belongs to the store.
\<close>

datatype file_content = Empty_File | Json_File session

type_synonym file_store = "string \<rightharpoonup> file_content"

fun split_path :: "string \<Rightarrow> string list" where
  \<comment> \<open>the parts of a path between its slashes\<close>
  "split_path [] = [[]]"
| "split_path (c # cs) =
     (if c = CHR ''/'' then [] # split_path cs
      else (case split_path cs of [] \<Rightarrow> [[c]] | part # parts \<Rightarrow> (c # part) # parts))"

definition utf8_size :: "string \<Rightarrow> nat" where
  \<comment> \<open>bytes of the name on disk: two for a code point from 128 on\<close>
  "utf8_size name = length name + length (filter (\<lambda>c. 128 \<le> (of_char c :: nat)) name)"

definition storage_file :: "string \<Rightarrow> string option" where
  \<comment> \<open>\<open>self.storage_path / f"{session_id}.json"\<close>: the name of the file in the storage
      directory that the path stands for. \<open>pathlib\<close> drops empty parts and \<open>.\<close>
      parts. \<open>None\<close> when the path is no file of the directory, so that \<open>exists()\<close>
      is false and \<open>open\<close> and \<open>rename\<close> raise: a null character, an absolute
      path, a path through another directory, a name above the 255 bytes of a file name\<close>
  "storage_file sid =
     (let path = sid @ ''.json'' in
      if CHR 0x00 \<in> set path then None
      else if hd path = CHR ''/'' then None
      else (case filter (\<lambda>part. part \<noteq> [] \<and> part \<noteq> ''.'') (split_path path) of
              [name] \<Rightarrow> if utf8_size name \<le> 255 then Some name else None
            | _ \<Rightarrow> None))"

record memory_manager =
  use_db :: bool
  db :: database
  files :: file_store
  current_session :: "session option"

subsection \<open>Saving and loading\<close>

definition save_session_to_db :: "memory_manager \<Rightarrow> session \<Rightarrow> memory_manager" where
  \<comment> \<open>\<open>INSERT OR REPLACE INTO sessions\<close>: the messages table is not touched\<close>
  "save_session_to_db mm s =
     mm\<lparr>db := (db mm)\<lparr>sessions_table := (sessions_table (db mm))(session_id s \<mapsto>
        \<lparr>row_user_name = user_name s, row_user_persona = user_persona s,
         row_model = model s, row_created_at = created_at s,
         row_updated_at = updated_at s, row_context = session_context s\<rparr>)\<rparr>\<rparr>"

definition save_session_to_file :: "memory_manager \<Rightarrow> session \<Rightarrow> memory_manager" where
  \<comment> \<open>\<open>json.dump(asdict(session), f)\<close> into \<open><session_id>.json\<close>, replacing the file;
      when \<open>open\<close> raises, the error is logged and nothing is saved\<close>
  "save_session_to_file mm s =
     (case storage_file (session_id s) of
        None \<Rightarrow> mm
      | Some name \<Rightarrow> mm\<lparr>files := (files mm)(name \<mapsto> Json_File s)\<rparr>)"

definition message_of_row :: "message_row \<Rightarrow> message" where
  "message_of_row r =
     \<lparr>role = msg_role r, content = msg_content r, timestamp = msg_timestamp r,
      metadata = msg_metadata r\<rparr>"

definition get_session_from_db :: "memory_manager \<Rightarrow> string \<Rightarrow> session option" where
  "get_session_from_db mm sid =
     (case sessions_table (db mm) sid of
        None \<Rightarrow> None
      | Some row \<Rightarrow>
          Some \<lparr>session_id = sid, user_name = row_user_name row,
                user_persona = row_user_persona row, model = row_model row,
                created_at = row_created_at row, updated_at = row_updated_at row,
                messages = map message_of_row
                   (filter (\<lambda>r. msg_session_id r = sid) (messages_table (db mm))),
                session_context = row_context row\<rparr>)"

definition get_session_from_file :: "memory_manager \<Rightarrow> string \<Rightarrow> session option" where
  \<comment> \<open>no file: \<open>None\<close>; \<open>json.load\<close> of an empty file raises, which is caught: \<open>None\<close>;
      otherwise every field and every message of the dump is copied into a new object\<close>
  "get_session_from_file mm sid =
     (case storage_file sid of
        None \<Rightarrow> None
      | Some name \<Rightarrow>
          (case files mm name of
             None \<Rightarrow> None
           | Some Empty_File \<Rightarrow> None
           | Some (Json_File s) \<Rightarrow> Some s))"

definition get_session :: "memory_manager \<Rightarrow> string \<Rightarrow> session option" where
  "get_session mm sid =
     (if use_db mm then get_session_from_db mm sid else get_session_from_file mm sid)"

definition new_manager :: "bool \<Rightarrow> memory_manager" where
  \<comment> \<open>\<open>MemoryManager(storage_path, use_db)\<close> on a storage path that holds nothing yet\<close>
  "new_manager b =
     \<lparr>use_db = b, db = \<lparr>sessions_table = Map.empty, messages_table = []\<rparr>,
      files = Map.empty, current_session = None\<rparr>"

subsection \<open>create_session\<close>

text \<open>
  What the call reads from outside: the configuration, and the clock three times (the
  \<open>strftime\<close> stamp of a generated id, and the two \<open>default_factory\<close> readings for
  \<open>created_at\<close> and \<open>updated_at\<close>).
\<close>

record create_env =
  env_config :: "string \<rightharpoonup> string"
  env_stamp :: string
  env_created :: string
  env_updated :: string

definition create_session ::
  "memory_manager \<Rightarrow> create_env \<Rightarrow> string option \<Rightarrow> string \<Rightarrow> memory_manager \<times> session" where
  "create_session mm env sid_arg mdl =
     (let sid = (case sid_arg of None \<Rightarrow> ''session_'' @ env_stamp env | Some s \<Rightarrow> s);
          s = \<lparr>session_id = sid,
               user_name = (case env_config env ''USER_NAME'' of None \<Rightarrow> ''User'' | Some v \<Rightarrow> v),
               user_persona = (case env_config env ''USER_PERSONA'' of None \<Rightarrow> '''' | Some v \<Rightarrow> v),
               model = mdl, created_at = env_created env, updated_at = env_updated env,
               messages = [], session_context = Map.empty\<rparr>;
          mm' = (if use_db mm then save_session_to_db mm s else save_session_to_file mm s)
      in (mm'\<lparr>current_session := Some s\<rparr>, s))"

subsection \<open>rename_session\<close>

definition rename_current :: "memory_manager \<Rightarrow> string \<Rightarrow> string \<Rightarrow> memory_manager" where
  \<comment> \<open>the tail of \<open>rename_session\<close>: the current session follows the rename\<close>
  "rename_current mm old_id new_id =
     (case current_session mm of
        None \<Rightarrow> mm
      | Some c \<Rightarrow> if session_id c = old_id
                  then mm\<lparr>current_session := Some (c\<lparr>session_id := new_id\<rparr>)\<rparr> else mm)"

definition rename_in_db :: "database \<Rightarrow> string \<Rightarrow> string \<Rightarrow> database" where
  \<comment> \<open>the two \<open>UPDATE ... SET session_id = new WHERE session_id = old\<close> of the
      transaction; an \<open>UPDATE\<close> that matches no row changes nothing and raises nothing\<close>
  "rename_in_db d old_id new_id =
     d\<lparr>sessions_table :=
          (case sessions_table d old_id of
             None \<Rightarrow> sessions_table d
           | Some row \<Rightarrow> ((sessions_table d)(old_id := None))(new_id \<mapsto> row)),
        messages_table :=
          map (\<lambda>r. if msg_session_id r = old_id then r\<lparr>msg_session_id := new_id\<rparr> else r)
              (messages_table d)\<rparr>"

text \<open>
  The file branch, statement by statement: \<open>open(old_file_path, 'w')\<close> truncates the
  file, \<open>json.dump\<close> writes the data with the new id into it, \<open>rename\<close> moves it.
  When \<open>rename\<close> raises, the \<open>except\<close> returns \<open>False\<close> and the file stays as
  rewritten.
\<close>

definition file_truncate :: "file_store \<Rightarrow> string \<Rightarrow> file_store" where
  "file_truncate fs name = fs(name \<mapsto> Empty_File)"

definition file_dump :: "file_store \<Rightarrow> string \<Rightarrow> session \<Rightarrow> file_store" where
  "file_dump fs name s = fs(name \<mapsto> Json_File s)"

definition file_rename :: "file_store \<Rightarrow> string \<Rightarrow> string \<Rightarrow> file_store" where
  "file_rename fs old_name new_name =
     (case fs old_name of None \<Rightarrow> fs | Some c \<Rightarrow> (fs(old_name := None))(new_name \<mapsto> c))"

definition rename_file_trace :: "file_store \<Rightarrow> string \<Rightarrow> string \<Rightarrow> file_store list" where
  \<comment> \<open>the storage directory after each statement that changes it, for an old file that
      exists and loads: three states, or two when \<open>rename\<close> raises\<close>
  "rename_file_trace fs old_id new_id =
     (case storage_file old_id of
        None \<Rightarrow> []
      | Some old_name \<Rightarrow>
          (case fs old_name of
             Some (Json_File s) \<Rightarrow>
               [file_truncate fs old_name,
                file_dump (file_truncate fs old_name) old_name (s\<lparr>session_id := new_id\<rparr>)]
               @ (case storage_file new_id of
                    None \<Rightarrow> []
                  | Some new_name \<Rightarrow>
                      [file_rename
                         (file_dump (file_truncate fs old_name) old_name (s\<lparr>session_id := new_id\<rparr>))
                         old_name new_name])
           | _ \<Rightarrow> []))"

definition rename_session ::
  "memory_manager \<Rightarrow> string \<Rightarrow> string \<Rightarrow> memory_manager \<times> bool" where
  "rename_session mm old_id new_id =
     (if new_id = [] \<or> strip new_id = [] then (mm, False)
      else if get_session mm new_id \<noteq> None then (mm, False)
      else if use_db mm then
        (rename_current (mm\<lparr>db := rename_in_db (db mm) old_id new_id\<rparr>) old_id new_id, True)
      else
        (case storage_file old_id of
           None \<Rightarrow> (mm, False)
         | Some old_name \<Rightarrow>
             (case files mm old_name of
                None \<Rightarrow> (mm, False)
              | Some Empty_File \<Rightarrow> (mm, False)
              | Some (Json_File s) \<Rightarrow>
                  (let rewritten = file_dump (file_truncate (files mm) old_name) old_name
                                     (s\<lparr>session_id := new_id\<rparr>)
                   in case storage_file new_id of
                        None \<Rightarrow> (mm\<lparr>files := rewritten\<rparr>, False)
                      | Some new_name \<Rightarrow>
                          (rename_current
                             (mm\<lparr>files := file_rename rewritten old_name new_name\<rparr>)
                             old_id new_id, True)))))"

subsection \<open>add_message\<close>

definition add_message_to_db ::
  "memory_manager \<Rightarrow> string \<Rightarrow> string \<Rightarrow> message \<Rightarrow> memory_manager" where
  \<comment> \<open>\<open>now\<close> is the clock reading of the \<open>UPDATE sessions SET updated_at\<close>\<close>
  "add_message_to_db mm now sid m =
     mm\<lparr>db := (db mm)\<lparr>
        messages_table := messages_table (db mm) @
          [\<lparr>msg_session_id = sid, msg_role = role m, msg_content = content m,
            msg_timestamp = timestamp m, msg_metadata = metadata m\<rparr>],
        sessions_table :=
          (case sessions_table (db mm) sid of
             None \<Rightarrow> sessions_table (db mm)
           | Some row \<Rightarrow> (sessions_table (db mm))(sid \<mapsto> row\<lparr>row_updated_at := now\<rparr>))\<rparr>\<rparr>"

definition resolve_session_id :: "memory_manager \<Rightarrow> string option \<Rightarrow> string option" where
  \<comment> \<open>\<open>session_id or (self.current_session.session_id if self.current_session else None)\<close>\<close>
  "resolve_session_id mm sid_arg =
     (if truthy sid_arg then sid_arg
      else (case current_session mm of None \<Rightarrow> None | Some c \<Rightarrow> Some (session_id c)))"

definition append_to_current :: "memory_manager \<Rightarrow> string \<Rightarrow> message \<Rightarrow> memory_manager" where
  "append_to_current mm sid m =
     (case current_session mm of
        None \<Rightarrow> mm
      | Some c \<Rightarrow> if session_id c = sid
                  then mm\<lparr>current_session := Some (c\<lparr>messages := messages c @ [m]\<rparr>)\<rparr> else mm)"

definition add_message ::
  "memory_manager \<Rightarrow> string \<Rightarrow> string \<Rightarrow> string \<Rightarrow> string \<Rightarrow> string option \<Rightarrow> py_dict option
     \<Rightarrow> memory_manager \<times> message option" where
  \<comment> \<open>\<open>stamp\<close> is the clock reading of the message's \<open>timestamp\<close>, \<open>now\<close> the later one of
      the database update\<close>
  "add_message mm stamp now rl txt sid_arg meta_arg =
     (case resolve_session_id mm sid_arg of
        None \<Rightarrow> (mm, None)
      | Some sid \<Rightarrow>
          if sid = [] then (mm, None)
          else
            (let m = \<lparr>role = rl, content = txt, timestamp = stamp,
                      metadata = (case meta_arg of None \<Rightarrow> Map.empty | Some d \<Rightarrow> d)\<rparr>;
                 mm' = (if use_db mm then add_message_to_db mm now sid m
                        else (case get_session mm sid of
                                None \<Rightarrow> mm
                              | Some s \<Rightarrow> save_session_to_file mm (s\<lparr>messages := messages s @ [m]\<rparr>)))
             in (append_to_current mm' sid m, Some m)))"

subsection \<open>get_conversation_history\<close>



subsection \<open>clear_session_messages\<close>

definition keep_document_context :: "message list \<Rightarrow> message list" where
  \<comment> \<open>\<open>[msg for msg in messages if msg.role == "document_context"]\<close>\<close>
  "keep_document_context ms = filter (\<lambda>m. role m = ''document_context'') ms"

definition clear_current :: "memory_manager \<Rightarrow> string \<Rightarrow> memory_manager" where
  "clear_current mm sid =
     (case current_session mm of
        None \<Rightarrow> mm
      | Some c \<Rightarrow> if session_id c = sid
                  then mm\<lparr>current_session := Some (c\<lparr>messages := keep_document_context (messages c)\<rparr>)\<rparr>
                  else mm)"

definition clear_session_messages ::
  "memory_manager \<Rightarrow> string \<Rightarrow> string \<Rightarrow> memory_manager \<times> bool" where
  \<comment> \<open>database: \<open>DELETE FROM messages WHERE session_id = ?\<close>, then the \<open>updated_at\<close>
      update at clock reading \<open>now\<close>; files: load, filter, save\<close>
  "clear_session_messages mm now sid =
     (if use_db mm then
        (clear_current
           (mm\<lparr>db := (db mm)\<lparr>
              messages_table := filter (\<lambda>r. msg_session_id r \<noteq> sid) (messages_table (db mm)),
              sessions_table :=
                (case sessions_table (db mm) sid of
                   None \<Rightarrow> sessions_table (db mm)
                 | Some row \<Rightarrow> (sessions_table (db mm))(sid \<mapsto> row\<lparr>row_updated_at := now\<rparr>))\<rparr>\<rparr>)
           sid, True)
      else
        (case get_session mm sid of
           None \<Rightarrow> (mm, False)
         | Some s \<Rightarrow>
             (clear_current
                (save_session_to_file mm (s\<lparr>messages := keep_document_context (messages s)\<rparr>))
                sid, True)))"

section \<open>chatbot.py: the prompt and the rate limit\<close>

definition RATE_LIMIT_DURATION :: real where
  "RATE_LIMIT_DURATION = 60"

datatype chat_error = ValueError

record chatbot =
  last_request_time :: real

text \<open>
  The clock of one call: \<open>current_time\<close> is the first reading of \<open>time.time()\<close>.
  \<open>time.sleep(d)\<close> returns \<open>d\<close> seconds later or more. \<open>lag\<close> is the time from the
  earliest moment the call can go on (the first reading, or the end of the requested
  sleep) to the second reading of \<open>time.time()\<close>, the one stored in
  \<open>last_request_time\<close>; it is never negative on a clock that does not run backwards.
  Seconds are real numbers.
\<close>

definition rate_limit :: "chatbot \<Rightarrow> real \<Rightarrow> real \<Rightarrow> chatbot" where
  "rate_limit cb current_time lag =
     (let elapsed_time = current_time - last_request_time cb;
          resumed = (if elapsed_time < RATE_LIMIT_DURATION
                     then current_time + (RATE_LIMIT_DURATION - elapsed_time)
                     else current_time)
      in cb\<lparr>last_request_time := resumed + lag\<rparr>)"

fun join :: "string \<Rightarrow> string list \<Rightarrow> string" where
  "join sep [] = []"
| "join sep [x] = x"
| "join sep (x # y # ys) = x @ sep @ join sep (y # ys)"

definition identity_parts :: "string option \<Rightarrow> string option \<Rightarrow> string list" where
  "identity_parts name persona =
     (if truthy name \<and> truthy persona then
        [''You are responding to '' @ the name @ '', whose persona is: '' @ [CHR 0x27]
           @ the persona @ [CHR 0x27] @ ''.'']
      else if truthy name then [''You are responding to '' @ the name @ ''.'']
      else if truthy persona then
        [''The user'' @ [CHR 0x27] @ ''s persona is: '' @ [CHR 0x27] @ the persona @ [CHR 0x27] @ ''.'']
      else [])"

definition append_document_contexts :: "string list \<Rightarrow> (string \<times> string) list \<Rightarrow> string list" where
  \<comment> \<open>the first loop over \<open>history\<close>, appending to \<open>prompt_parts\<close>\<close>
  "append_document_contexts parts history =
     foldl (\<lambda>acc (r, c). if r = ''document_context''
                          then acc @ [''## Imported Document Context:\<newline>'' @ c] else acc)
           parts history"

definition append_turns :: "string list \<Rightarrow> (string \<times> string) list \<Rightarrow> string list" where
  \<comment> \<open>the second loop over \<open>history\<close>\<close>
  "append_turns parts history =
     foldl (\<lambda>acc (r, c). if r = ''user'' then acc @ [''User: '' @ c]
                          else if r = ''assistant'' then acc @ [''Assistant: '' @ c]
                          else acc)
           parts history"

definition prompt_parts ::
  "string \<Rightarrow> string option \<Rightarrow> string option \<Rightarrow> (string \<times> string) list option \<Rightarrow> string option
     \<Rightarrow> string list" where
  "prompt_parts message name persona history rag_context =
     (let parts1 = identity_parts name persona;
          parts2 = (if truthy rag_context then parts1 @ [the rag_context] else parts1);
          parts3 = (case history of None \<Rightarrow> parts2
                    | Some h \<Rightarrow> if h \<noteq> [] then append_document_contexts parts2 h else parts2);
          parts4 = (case history of None \<Rightarrow> parts3
                    | Some h \<Rightarrow> if h \<noteq> [] then append_turns parts3 h else parts3)
      in parts4 @ [''User'' @ [CHR 0x27] @ ''s message: '' @ message])"

definition chat ::
  "chatbot \<Rightarrow> real \<Rightarrow> real \<Rightarrow> string \<Rightarrow> string option \<Rightarrow> string option
     \<Rightarrow> (string \<times> string) list option \<Rightarrow> string option \<Rightarrow> chat_error + (chatbot \<times> string)" where
  \<comment> \<open>up to the dispatch: the result is the chatbot after the rate limit and the prompt
      handed to \<open>self.llm.invoke\<close>\<close>
  "chat cb current_time lag message name persona history rag_context =
     (if message = [] \<or> strip message = [] then Inl ValueError
      else Inr (rate_limit cb current_time lag,
                join ''\<newline>\<newline>'' (prompt_parts message name persona history rag_context)))"

subsection \<open>The order of the prompt as the specification words it\<close>




section \<open>chromadb_rag.py: the retrieval index\<close>

type_synonym embedding = "real list"

subsection \<open>The ChromaDB collection\<close>

text \<open>
  The collection is ChromaDB's, a library outside the repository; the two calls the code
  makes are modelled by the library's contract, as the releases that have the
  \<open>PersistentClient\<close> of \<open>__init__\<close> document it. A collection keeps its records under
  their ids. \<open>add\<close> validates before it writes: it raises unless the ids of the call are
  distinct and every list has one item per id; a record whose id is stored already is
  left out, without an error. \<open>query\<close> raises unless \<open>n_results\<close> is positive, and
  returns the \<open>n_results\<close> records nearest to the query embedding (all of them when
  there are fewer) in the collection's distance, nearest first, with one distance and one
  metadata per document. The distance (cosine for this collection) is a parameter.
\<close>

record stored_record =
  rec_id :: string
  rec_embedding :: embedding
  rec_document :: string
  rec_metadata :: py_dict

record chroma_collection =
  col_space :: "embedding \<Rightarrow> embedding \<Rightarrow> real"
  col_records :: "stored_record list"

definition stored_ids :: "chroma_collection \<Rightarrow> string list" where
  "stored_ids c = map rec_id (col_records c)"

definition valid_add :: "string list \<Rightarrow> embedding list \<Rightarrow> string list \<Rightarrow> py_dict list \<Rightarrow> bool" where
  \<comment> \<open>the validation of \<open>add\<close>, before anything is written\<close>
  "valid_add ids embs docs metas =
     (ids \<noteq> [] \<and> distinct ids \<and> length embs = length ids \<and> length docs = length ids
         \<and> length metas = length ids)"

definition zip_records ::
  "string list \<Rightarrow> embedding list \<Rightarrow> string list \<Rightarrow> py_dict list \<Rightarrow> stored_record list" where
  "zip_records ids embs docs metas =
     map (\<lambda>(i, e, d, m). \<lparr>rec_id = i, rec_embedding = e, rec_document = d, rec_metadata = m\<rparr>)
         (zip ids (zip embs (zip docs metas)))"

definition collection_add ::
  "chroma_collection \<Rightarrow> string list \<Rightarrow> embedding list \<Rightarrow> string list \<Rightarrow> py_dict list
     \<Rightarrow> chroma_collection option" where
  "collection_add c ids embs docs metas =
     (if valid_add ids embs docs metas
      then Some (c\<lparr>col_records := col_records c @
              filter (\<lambda>r. rec_id r \<notin> set (stored_ids c)) (zip_records ids embs docs metas)\<rparr>)
      else None)"

record query_result =
  qr_documents :: "string list"
  qr_distances :: "real list"
  qr_metadatas :: "py_dict list"

definition collection_query :: "chroma_collection \<Rightarrow> embedding \<Rightarrow> int \<Rightarrow> query_result option" where
  "collection_query c q n_results =
     (if 0 < n_results then
        (let hits = take (nat n_results)
                      (sort_key (\<lambda>r. col_space c q (rec_embedding r)) (col_records c))
         in Some \<lparr>qr_documents = map rec_document hits,
                  qr_distances = map (\<lambda>r. col_space c q (rec_embedding r)) hits,
                  qr_metadatas = map rec_metadata hits\<rparr>)
      else None)"

subsection \<open>ChromaDBRAG\<close>

text \<open>
  The embedding model and the text splitter are services outside the repository: the
  functions below are what the code calls, \<open>None\<close> standing for a raised exception.
  \<open>hashlib.sha256(...).hexdigest()\<close> is the parameter \<open>sha256_hex\<close> of the functions
  that hash.
\<close>

record embeddings_model =
  embed_documents :: "string list \<Rightarrow> embedding list option"
  embed_query :: "string \<Rightarrow> embedding option"

record chromadb_rag =
  embeddings :: "embeddings_model option"
  collection :: chroma_collection
  split_text :: "string \<Rightarrow> string list"

record document_input =
  doc_content :: string
  doc_source :: "string option"
  doc_metadata :: "py_dict option"

record chunk_entry =
  entry_id :: string
  entry_document :: string
  entry_metadata :: py_dict

definition chunk_doc_id :: "(string \<Rightarrow> string) \<Rightarrow> string \<Rightarrow> string" where
  \<comment> \<open>\<open>f"doc_{chunk_hash}"\<close>\<close>
  "chunk_doc_id sha256_hex chunk = ''doc_'' @ sha256_hex chunk"

definition chunk_metadata :: "document_input \<Rightarrow> nat \<Rightarrow> py_dict" where
  "chunk_metadata doc chunk_idx =
     (case doc_metadata doc of None \<Rightarrow> Map.empty | Some d \<Rightarrow> d)
       (''source'' \<mapsto> PyStr (case doc_source doc of None \<Rightarrow> ''unknown'' | Some src \<Rightarrow> src),
        ''chunk_index'' \<mapsto> PyInt (int chunk_idx))"

definition chunks_to_add ::
  "(string \<Rightarrow> string) \<Rightarrow> chromadb_rag \<Rightarrow> document_input list \<Rightarrow> chunk_entry list" where
  \<comment> \<open>the loop over the documents; a document without content is skipped\<close>
  "chunks_to_add sha256_hex rag documents =
     concat (map (\<lambda>doc.
        if doc_content doc = [] then []
        else map (\<lambda>(chunk_idx, chunk).
                    \<lparr>entry_id = chunk_doc_id sha256_hex chunk, entry_document = chunk,
                     entry_metadata = chunk_metadata doc chunk_idx\<rparr>)
                 (enumerate 0 (split_text rag (doc_content doc))))
        documents)"

fun add_individually ::
  "embeddings_model \<Rightarrow> chroma_collection \<times> int \<Rightarrow> chunk_entry list \<Rightarrow> chroma_collection \<times> int" where
  \<comment> \<open>the fallback loop: a chunk whose embedding or add raises is logged and skipped\<close>
  "add_individually em (c, added_count) [] = (c, added_count)"
| "add_individually em (c, added_count) (chunk_data # rest) =
     (case embed_query em (entry_document chunk_data) of
        None \<Rightarrow> add_individually em (c, added_count) rest
      | Some e \<Rightarrow>
          (case collection_add c [entry_id chunk_data] [e] [entry_document chunk_data]
                  [entry_metadata chunk_data] of
             None \<Rightarrow> add_individually em (c, added_count) rest
           | Some c' \<Rightarrow> add_individually em (c', added_count + 1) rest))"

definition add_batch ::
  "embeddings_model \<Rightarrow> chroma_collection \<Rightarrow> chunk_entry list \<Rightarrow> chroma_collection option" where
  \<comment> \<open>the \<open>try\<close> block: embed every chunk and add them in one call; \<open>None\<close> when
      either raises\<close>
  "add_batch em c cta =
     (let ids = map entry_id cta;
          docs = map entry_document cta;
          metadatas = map entry_metadata cta
      in case embed_documents em docs of
           None \<Rightarrow> None
         | Some embs \<Rightarrow> collection_add c ids embs docs metadatas)"

definition add_documents ::
  "(string \<Rightarrow> string) \<Rightarrow> chromadb_rag \<Rightarrow> document_input list \<Rightarrow> chromadb_rag \<times> int" where
  "add_documents sha256_hex rag documents =
     (if documents = [] then (rag, 0)
      else case embeddings rag of
        None \<Rightarrow> (rag, 0)
      | Some em \<Rightarrow>
          (let cta = chunks_to_add sha256_hex rag documents in
           if cta = [] then (rag, 0)
           else
             (case add_batch em (collection rag) cta of
                Some c' \<Rightarrow> (rag\<lparr>collection := c'\<rparr>, int (length cta))
              | None \<Rightarrow>
                  (let (c', added_count) = add_individually em (collection rag, 0) cta
                   in (rag\<lparr>collection := c'\<rparr>, added_count)))))"

record query_hit =
  hit_content :: string
  hit_similarity :: real
  hit_distance :: real
  hit_metadata :: py_dict

fun format_results ::
  "nat \<Rightarrow> string list \<Rightarrow> real list \<Rightarrow> py_dict list \<Rightarrow> real \<Rightarrow> query_hit list" where
  \<comment> \<open>the loop \<open>for i, doc in enumerate(documents[0])\<close>, from index \<open>i\<close> on\<close>
  "format_results i [] distances metadatas threshold = []"
| "format_results i (doc # docs) distances metadatas threshold =
     (let distance = (if i < length distances then distances ! i else 0);
          similarity = 1 - distance
      in if similarity < threshold
         then format_results (Suc i) docs distances metadatas threshold
         else \<lparr>hit_content = doc, hit_similarity = similarity, hit_distance = distance,
               hit_metadata = (if i < length metadatas then metadatas ! i else Map.empty)\<rparr>
              # format_results (Suc i) docs distances metadatas threshold)"

definition query :: "chromadb_rag \<Rightarrow> string \<Rightarrow> int \<Rightarrow> real \<Rightarrow> query_hit list" where
  "query rag query_text top_k threshold =
     (case embeddings rag of
        None \<Rightarrow> []
      | Some em \<Rightarrow>
          (case embed_query em query_text of
             None \<Rightarrow> []
           | Some query_embedding \<Rightarrow>
               (case collection_query (collection rag) query_embedding top_k of
                  None \<Rightarrow> []
                | Some results \<Rightarrow>
                    if qr_documents results = [] then []
                    else format_results 0 (qr_documents results) (qr_distances results)
                           (qr_metadatas results) threshold)))"

subsection \<open>What a query is measured against\<close>

definition stored_similarities :: "chromadb_rag \<Rightarrow> string \<Rightarrow> real list" where
  \<comment> \<open>the similarity, one minus the distance, of every stored chunk to the embedding of
      the query text; there is none when the text cannot be embedded\<close>
  "stored_similarities rag query_text =
     (case embeddings rag of
        None \<Rightarrow> []
      | Some em \<Rightarrow>
          (case embed_query em query_text of
             None \<Rightarrow> []
           | Some q \<Rightarrow> map (\<lambda>r. 1 - col_space (collection rag) q (rec_embedding r))
                         (col_records (collection rag))))"

definition hit_of :: "(stored_record \<Rightarrow> real) \<Rightarrow> stored_record \<Rightarrow> query_hit" where
  \<comment> \<open>the dictionary \<open>query\<close> builds for a record at distance \<open>d r\<close>\<close>
  "hit_of d r = \<lparr>hit_content = rec_document r, hit_similarity = 1 - d r, hit_distance = d r,
                hit_metadata = rec_metadata r\<rparr>"

section \<open>Sequences of add_message calls\<close>




section \<open>Example stores\<close>

definition example_env :: create_env where
  "example_env =
     \<lparr>env_config = Map.empty, env_stamp = ''20240101_100000'',
      env_created = ''2024-01-01T10:00:00'', env_updated = ''2024-01-01T10:00:00''\<rparr>"

definition created_store :: "bool \<Rightarrow> memory_manager" where
  \<comment> \<open>a new manager on the chosen backend, after \<open>create_session("s1")\<close>\<close>
  "created_store b = fst (create_session (new_manager b) example_env (Some ''s1'') ''gemini-2.5-flash'')"

definition imported_store :: "bool \<Rightarrow> memory_manager" where
  \<comment> \<open>then a document is imported into \<open>s1\<close> and the user says hi\<close>
  "imported_store b =
     fst (add_message
       (fst (add_message (created_store b) ''2024-01-01T10:01:00'' ''2024-01-01T10:01:00''
               ''document_context'' ''Document: note.txt'' (Some ''s1'') None))
       ''2024-01-01T10:02:00'' ''2024-01-01T10:02:00'' ''user'' ''hi'' (Some ''s1'') None)"

subsection \<open>An example index\<close>

definition unit_distance :: "embedding \<Rightarrow> embedding \<Rightarrow> real" where
  \<comment> \<open>the cosine distance of two vectors of length one: one minus their inner product\<close>
  "unit_distance a b = 1 - sum_list (map2 (*) a b)"

definition example_embed :: "string \<Rightarrow> embedding" where
  "example_embed t =
     (if t = ''sky color'' then [1, 0]
      else if t = ''The sky is blue.'' then [3 / 5, 4 / 5]
      else if t = ''Blue is the color of the sky.'' then [4 / 5, 3 / 5]
      else [0, 1])"

definition example_digest :: "string \<Rightarrow> string" where
  \<comment> \<open>stands for \<open>sha256\<close> in the examples\<close>
  "example_digest chunk = rev chunk"

definition example_rag :: chromadb_rag where
  \<comment> \<open>an empty collection, chunks that are whole documents, embeddings that never fail\<close>
  "example_rag =
     \<lparr>embeddings = Some \<lparr>embed_documents = (\<lambda>ds. Some (map example_embed ds)),
                          embed_query = (\<lambda>t. Some (example_embed t))\<rparr>,
      collection = \<lparr>col_space = unit_distance, col_records = []\<rparr>,
      split_text = (\<lambda>t. [t])\<rparr>"

definition example_documents :: "document_input list" where
  "example_documents =
     [\<lparr>doc_content = ''The sky is blue.'', doc_source = Some ''note.txt'', doc_metadata = None\<rparr>,
      \<lparr>doc_content = ''Grass is green.'', doc_source = Some ''lawn.txt'', doc_metadata = None\<rparr>,
      \<lparr>doc_content = ''Blue is the color of the sky.'', doc_source = None, doc_metadata = None\<rparr>]"

definition example_index :: chromadb_rag where
  "example_index = fst (add_documents example_digest example_rag example_documents)"

section \<open>Evaluation of the store\<close>

lemmas store_defs =
  new_manager_def create_session_def save_session_to_db_def save_session_to_file_def
  add_message_def add_message_to_db_def resolve_session_id_def truthy_def
  append_to_current_def get_session_def get_session_from_db_def get_session_from_file_def
  message_of_row_def example_env_def created_store_def imported_store_def Let_def
  storage_file_def utf8_size_def

section \<open>Loading does not depend on the current session\<close>

lemma get_session_append_to_current:
  "get_session (append_to_current mm sid m) x = get_session mm x"
  by (simp add: append_to_current_def get_session_def get_session_from_db_def
      get_session_from_file_def split: option.splits)

lemma get_session_clear_current:
  "get_session (clear_current mm sid) x = get_session mm x"
  by (simp add: clear_current_def get_session_def get_session_from_db_def
      get_session_from_file_def split: option.splits)

lemma get_session_current_update:
  "get_session (mm\<lparr>current_session := c\<rparr>) x = get_session mm x"
  by (simp add: get_session_def get_session_from_db_def get_session_from_file_def
      split: option.splits)

section \<open>Files that load\<close>

lemma loaded_file:
  assumes "\<not> use_db mm" "get_session mm sid = Some s"
  shows "\<exists>name. storage_file sid = Some name \<and> files mm name = Some (Json_File s)"
  using assms
  by (auto simp: get_session_def get_session_from_file_def
      split: option.splits file_content.splits)

lemma load_saved_file:
  assumes "\<not> use_db mm" "storage_file (session_id s) = Some name"
  shows "get_session (save_session_to_file mm s) (session_id s) = Some s"
  using assms
  by (simp add: get_session_def get_session_from_file_def save_session_to_file_def)

lemma load_saved_over:
  assumes "\<not> use_db mm" "get_session mm sid = Some s0" "session_id s = sid"
  shows "get_session (save_session_to_file mm s) sid = Some s"
proof -
  from loaded_file[OF assms(1,2)] obtain name where "storage_file sid = Some name"
    by blast
  with assms(3) have "storage_file (session_id s) = Some name" by simp
  from load_saved_file[OF assms(1) this] assms(3) show ?thesis by simp
qed

section \<open>clear_session_messages and imported documents\<close>

lemma clear_session_messages_db_loads_nothing:
  assumes "use_db mm" "get_session mm sid = Some s"
  shows "snd (clear_session_messages mm now sid) = True"
    and "map_option messages (get_session (fst (clear_session_messages mm now sid)) sid) = Some []"
proof -
  from assms obtain row where row: "sessions_table (db mm) sid = Some row"
    by (auto simp: get_session_def get_session_from_db_def split: option.splits)
  show "snd (clear_session_messages mm now sid) = True"
    using assms(1) by (simp add: clear_session_messages_def)
  show "map_option messages (get_session (fst (clear_session_messages mm now sid)) sid) = Some []"
    using assms(1) row
    apply (simp add: clear_session_messages_def get_session_clear_current)
    apply (simp add: get_session_def get_session_from_db_def)
    done
qed

lemma clear_session_messages_file_keeps_documents:
  assumes "\<not> use_db mm" "get_session mm sid = Some s" "session_id s = sid"
  shows "get_session (fst (clear_session_messages mm now sid)) sid
           = Some (s\<lparr>messages := filter (\<lambda>m. role m = ''document_context'') (messages s)\<rparr>)"
proof -
  let ?kept = "s\<lparr>messages := filter (\<lambda>m. role m = ''document_context'') (messages s)\<rparr>"
  have "fst (clear_session_messages mm now sid) = clear_current (save_session_to_file mm ?kept) sid"
    using assms(1,2) by (simp add: clear_session_messages_def keep_document_context_def)
  moreover have "get_session (save_session_to_file mm ?kept) sid = Some ?kept"
    by (rule load_saved_over[OF assms(1,2)]) (simp add: assms(3))
  ultimately show ?thesis
    by (simp add: get_session_clear_current)
qed

text \<open>
  C1. Clearing a session is to remove the \<open>user\<close> and \<open>assistant\<close> messages and keep every
  \<open>document_context\<close> message, on both backends. On the store that holds session \<open>s1\<close>
  with one imported document and one user message, the JSON-file backend does so: the
  session loads with the document alone. The SQLite backend deletes every row of the
  session: the call reports success and the session loads with no message at all.
\<close>

theorem clear_session_messages_db_deletes_documents:
  "snd (clear_session_messages (imported_store True) ''2024-01-01T10:03:00'' ''s1'') = True
   \<and> map_option (\<lambda>s. map role (messages s))
        (get_session (fst (clear_session_messages (imported_store True) ''2024-01-01T10:03:00'' ''s1''))
           ''s1'') = Some []
   \<and> map_option (\<lambda>s. map role (messages s)) (get_session (imported_store True) ''s1'')
        = Some [''document_context'', ''user'']
   \<and> map_option (\<lambda>s. map role (messages s))
        (get_session (fst (clear_session_messages (imported_store False) ''2024-01-01T10:03:00'' ''s1''))
           ''s1'') = Some [''document_context'']"
  by (simp add: store_defs clear_session_messages_def clear_current_def keep_document_context_def)

section \<open>rename_session of a session that does not exist\<close>

lemma rename_session_db_never_checks_old_id:
  assumes "use_db mm" "new_id \<noteq> []" "strip new_id \<noteq> []" "get_session mm new_id = None"
  shows "snd (rename_session mm old_id new_id) = True"
  using assms by (simp add: rename_session_def)

text \<open>
  C3. Renaming an id that no session has is to fail. On a store without any session the
  JSON-file backend returns \<open>False\<close> (no such file); the SQLite backend runs two updates
  that match no row and returns \<open>True\<close>. Neither changes the store.
\<close>

theorem rename_session_db_missing_id_succeeds:
  "rename_session (new_manager True) ''a'' ''b'' = (new_manager True, True)
   \<and> rename_session (new_manager False) ''a'' ''b'' = (new_manager False, False)"
  by (simp add: new_manager_def rename_session_def get_session_def get_session_from_db_def
      get_session_from_file_def strip_def is_space_def rename_in_db_def rename_current_def
      storage_file_def utf8_size_def)

section \<open>create_session over stored messages\<close>

lemma create_session_db_loads_stored_messages:
  assumes "use_db mm"
  shows "map_option messages
           (get_session (fst (create_session mm env (Some sid) mdl)) sid)
         = Some (map message_of_row
                   (filter (\<lambda>r. msg_session_id r = sid) (messages_table (db mm))))"
  using assms
  apply (simp add: create_session_def Let_def get_session_current_update)
  apply (simp add: get_session_def get_session_from_db_def save_session_to_db_def)
  done

lemma create_session_file_loads_no_messages:
  assumes "\<not> use_db mm" "storage_file sid = Some name"
  shows "map_option messages (get_session (fst (create_session mm env (Some sid) mdl)) sid)
         = Some []"
  using assms
  apply (simp add: create_session_def Let_def get_session_current_update)
  apply (simp add: get_session_def get_session_from_file_def save_session_to_file_def)
  done

lemma create_session_file_saves_nothing:
  assumes "\<not> use_db mm" "storage_file sid = None"
  shows "files (fst (create_session mm env (Some sid) mdl)) = files mm"
    and "get_session (fst (create_session mm env (Some sid) mdl)) sid = None"
  using assms
  by (simp_all add: create_session_def Let_def get_session_current_update
      get_session_def get_session_from_file_def save_session_to_file_def)

lemma rename_session_to_itself_fails:
  "snd (rename_session (fst (create_session mm env (Some sid) mdl)) sid sid) = False"
proof (cases "sid = [] \<or> strip sid = []")
  case True
  then show ?thesis by (auto simp: rename_session_def)
next
  case False
  let ?mm = "fst (create_session mm env (Some sid) mdl)"
  have db: "use_db ?mm = use_db mm"
    by (simp add: create_session_def Let_def save_session_to_db_def save_session_to_file_def
        split: option.splits)
  show ?thesis
  proof (cases "get_session ?mm sid")
    case (Some s)
    then show ?thesis by (simp add: rename_session_def)
  next
    case None
    have "\<not> use_db mm"
    proof
      assume "use_db mm"
      then have "get_session ?mm sid \<noteq> None"
        apply (simp add: create_session_def Let_def get_session_current_update)
        apply (simp add: get_session_def get_session_from_db_def save_session_to_db_def)
        done
      with None show False by simp
    qed
    moreover have "storage_file sid = None"
    proof (cases "storage_file sid")
      case (Some name)
      with \<open>\<not> use_db mm\<close> have "get_session ?mm sid \<noteq> None"
        apply (simp add: create_session_def Let_def get_session_current_update)
        apply (simp add: get_session_def get_session_from_file_def save_session_to_file_def)
        done
      with None show ?thesis by simp
    qed simp
    ultimately show ?thesis
      using False None db by (simp add: rename_session_def)
  qed
qed

text \<open>
  C4. Loading a session right after \<open>create_session\<close> is to give no messages, and renaming
  it to its own id is to fail. With session \<open>s1\<close> already stored with two messages,
  \<open>create_session("s1")\<close> returns a session without messages on both backends; the
  JSON-file backend then loads it without messages, while the SQLite backend replaces the
  row of \<open>sessions\<close> only and loads the session with the two old messages. The rename to
  the same id fails on both.
\<close>

theorem create_session_db_keeps_old_messages:
  "messages (snd (create_session (imported_store True) example_env (Some ''s1'') ''gemini-2.5-flash'')) = []
   \<and> map_option (\<lambda>s. map content (messages s))
        (get_session (fst (create_session (imported_store True) example_env (Some ''s1'') ''gemini-2.5-flash''))
           ''s1'') = Some [''Document: note.txt'', ''hi'']
   \<and> map_option (\<lambda>s. map content (messages s))
        (get_session (fst (create_session (imported_store False) example_env (Some ''s1'') ''gemini-2.5-flash''))
           ''s1'') = Some []
   \<and> snd (rename_session
        (fst (create_session (imported_store True) example_env (Some ''s1'') ''gemini-2.5-flash''))
        ''s1'' ''s1'') = False"
  by (simp add: store_defs rename_session_def strip_def is_space_def)

section \<open>add_message and updated_at\<close>

lemma add_message_file_updated_at:
  assumes "\<not> use_db mm" "sid \<noteq> []" "get_session mm sid = Some s" "session_id s = sid"
  shows "map_option updated_at
           (get_session (fst (add_message mm stamp now rl txt (Some sid) meta)) sid)
         = Some (updated_at s)"
proof -
  let ?m = "\<lparr>role = rl, content = txt, timestamp = stamp,
             metadata = (case meta of None \<Rightarrow> Map.empty | Some d \<Rightarrow> d)\<rparr>"
  let ?s = "s\<lparr>messages := messages s @ [?m]\<rparr>"
  have "fst (add_message mm stamp now rl txt (Some sid) meta)
          = append_to_current (save_session_to_file mm ?s) sid ?m"
    using assms(1,2,3) by (simp add: add_message_def resolve_session_id_def truthy_def Let_def)
  moreover have "get_session (save_session_to_file mm ?s) sid = Some ?s"
    by (rule load_saved_over[OF assms(1,3)]) (simp add: assms(4))
  ultimately show ?thesis
    by (simp add: get_session_append_to_current)
qed

lemma add_message_db_updated_at:
  assumes "use_db mm" "sid \<noteq> []" "get_session mm sid = Some s"
  shows "map_option updated_at
           (get_session (fst (add_message mm stamp now rl txt (Some sid) meta)) sid)
         = Some now"
proof -
  from assms obtain row where row: "sessions_table (db mm) sid = Some row"
    by (auto simp: get_session_def get_session_from_db_def split: option.splits)
  with assms(1,2) show ?thesis
    apply (simp add: add_message_def resolve_session_id_def truthy_def Let_def
        get_session_append_to_current)
    apply (simp add: get_session_def get_session_from_db_def add_message_to_db_def)
    done
qed

text \<open>
  C5. A change of the message list is to advance the stored \<open>updated_at\<close>. Session \<open>s1\<close> is
  created at 10:00:00 and a message is added at 10:05:00. The SQLite backend then stores
  10:05:00 as \<open>updated_at\<close>. The JSON-file backend appends the message and saves the
  session as loaded: the message list has grown and \<open>updated_at\<close> is still 10:00:00.
\<close>

theorem add_message_file_keeps_updated_at:
  "map_option updated_at (get_session (created_store False) ''s1'') = Some ''2024-01-01T10:00:00''
   \<and> map_option (\<lambda>s. (length (messages s), updated_at s))
        (get_session
           (fst (add_message (created_store False) ''2024-01-01T10:05:00'' ''2024-01-01T10:05:00''
                   ''user'' ''hi'' (Some ''s1'') None)) ''s1'')
       = Some (1, ''2024-01-01T10:00:00'')
   \<and> map_option (\<lambda>s. (length (messages s), updated_at s))
        (get_session
           (fst (add_message (created_store True) ''2024-01-01T10:05:00'' ''2024-01-01T10:05:00''
                   ''user'' ''hi'' (Some ''s1'') None)) ''s1'')
       = Some (1, ''2024-01-01T10:05:00'')"
  by (simp add: store_defs)

section \<open>get_conversation_history after a sequence of add_message calls\<close>










section \<open>The prompt of chat\<close>





section \<open>The rate limit of chat\<close>

text \<open>
  C10. For two consecutive dispatching calls of \<open>chat\<close> on one chatbot, on a clock that
  does not run backwards while the second call waits: the dispatch times recorded in
  \<open>last_request_time\<close> are at least \<open>RATE_LIMIT_DURATION\<close> apart. If less than the
  interval has elapsed when the second call reads the clock, it sleeps for the remainder
  and records a time no earlier than the first dispatch plus the interval; otherwise it
  records the time of the call.
\<close>

theorem chat_dispatches_spaced:
  assumes "chat cb t1 lag1 m1 n1 p1 h1 r1 = Inr (cb1, prompt1)"
    and "chat cb1 t2 lag2 m2 n2 p2 h2 r2 = Inr (cb2, prompt2)"
    and "0 \<le> lag2"
  shows "RATE_LIMIT_DURATION \<le> last_request_time cb2 - last_request_time cb1
       \<and> last_request_time cb2 =
           (if t2 - last_request_time cb1 < RATE_LIMIT_DURATION
            then last_request_time cb1 + RATE_LIMIT_DURATION + lag2 else t2 + lag2)"
proof -
  from assms(2) have "cb2 = rate_limit cb1 t2 lag2"
    by (simp add: chat_def split: if_splits)
  with assms(3) show ?thesis
    by (simp add: rate_limit_def Let_def)
qed

theorem chat_dispatches_spaced_witness:
  "chat \<lparr>last_request_time = 0\<rparr> 1000 (1/2) ''hi'' None None None None
     = Inr (\<lparr>last_request_time = 1000 + 1/2\<rparr>, ''User'' @ [CHR 0x27] @ ''s message: hi'')
   \<and> chat \<lparr>last_request_time = 1000 + 1/2\<rparr> 1010 (1/4) ''again'' None None None None
     = Inr (\<lparr>last_request_time = 1060 + 3/4\<rparr>, ''User'' @ [CHR 0x27] @ ''s message: again'')
   \<and> (0::real) \<le> 1/4
   \<and> RATE_LIMIT_DURATION \<le> (1060 + 3/4) - (1000 + 1/2)"
proof -
  have a: "chat \<lparr>last_request_time = 0\<rparr> 1000 (1/2) ''hi'' None None None None
     = Inr (\<lparr>last_request_time = 1000 + 1/2\<rparr>, ''User'' @ [CHR 0x27] @ ''s message: hi'')"
    by (simp add: chat_def strip_def is_space_def rate_limit_def RATE_LIMIT_DURATION_def
        prompt_parts_def identity_parts_def truthy_def)
  have b: "chat \<lparr>last_request_time = 1000 + 1/2\<rparr> 1010 (1/4) ''again'' None None None None
     = Inr (\<lparr>last_request_time = 1060 + 3/4\<rparr>, ''User'' @ [CHR 0x27] @ ''s message: again'')"
    by (simp add: chat_def strip_def is_space_def rate_limit_def RATE_LIMIT_DURATION_def
        prompt_parts_def identity_parts_def truthy_def)
  have c: "(0::real) \<le> 1/4" by simp
  from chat_dispatches_spaced[OF a b c] a b c show ?thesis by simp
qed

section \<open>rename_session on the JSON-file backend, statement by statement\<close>


lemma rename_session_file_failed_rename_keeps_rewrite:
  "storage_file ''a/b'' = None
   \<and> snd (rename_session (imported_store False) ''s1'' ''a/b'') = False
   \<and> map_option session_id
        (get_session (fst (rename_session (imported_store False) ''s1'' ''a/b'')) ''s1'')
       = Some ''a/b''
   \<and> storage_file ''./s1'' = Some ''s1.json''
   \<and> snd (rename_session (imported_store False) ''s1'' ''./s1'') = False"
  by (simp add: store_defs rename_file_trace_def file_truncate_def file_dump_def file_rename_def
      rename_session_def strip_def is_space_def rename_current_def)

lemma blank_new_id_rejected:
  "snd (rename_session (imported_store b) ''s1'' [CHR 0xA0]) = False
   \<and> snd (rename_session (imported_store b) ''s1'' [CHR 0x85, CHR 0x20]) = False"
  by (simp add: rename_session_def strip_def is_space_def)




section \<open>Re-importing documents into the index\<close>

lemma zipped_ids:
  "length embs = length ids \<Longrightarrow> length docs = length ids \<Longrightarrow> length metas = length ids \<Longrightarrow>
   map rec_id (zip_records ids embs docs metas) = ids"
proof (induction ids arbitrary: embs docs metas)
  case Nil
  then show ?case by (simp add: zip_records_def)
next
  case (Cons i ids)
  then obtain e embs' d docs' m metas' where
    "embs = e # embs'" "docs = d # docs'" "metas = m # metas'"
    by (metis length_Suc_conv)
  with Cons show ?case by (simp add: zip_records_def)
qed

lemma collection_add_None:
  "(collection_add c ids embs docs metas = None) = (\<not> valid_add ids embs docs metas)"
  by (simp add: collection_add_def)

lemma collection_add_ids:
  assumes "collection_add c ids embs docs metas = Some c'"
  shows "stored_ids c' = stored_ids c @ filter (\<lambda>i. i \<notin> set (stored_ids c)) ids"
proof -
  from assms have v: "valid_add ids embs docs metas"
    using collection_add_None[of c ids embs docs metas] by auto
  then have ids: "map rec_id (zip_records ids embs docs metas) = ids"
    by (simp add: valid_add_def zipped_ids)
  from assms v have c': "col_records c' = col_records c @
              filter (\<lambda>r. rec_id r \<notin> set (stored_ids c)) (zip_records ids embs docs metas)"
    by (auto simp: collection_add_def)
  have "map rec_id (filter (\<lambda>r. rec_id r \<notin> set (stored_ids c)) (zip_records ids embs docs metas))
        = filter (\<lambda>i. i \<notin> set (stored_ids c)) (map rec_id (zip_records ids embs docs metas))"
    by (simp add: filter_map o_def)
  with ids c' show ?thesis
    by (simp add: stored_ids_def)
qed

lemma collection_add_distinct:
  assumes "collection_add c ids embs docs metas = Some c'" "distinct (stored_ids c)"
  shows "distinct (stored_ids c')"
proof -
  from assms(1) have "distinct ids"
    using collection_add_None[of c ids embs docs metas] by (auto simp: valid_add_def)
  with assms(2) show ?thesis
    unfolding collection_add_ids[OF assms(1)] by auto
qed

lemma collection_add_present:
  assumes "collection_add c ids embs docs metas = Some c'" "set ids \<subseteq> set (stored_ids c)"
  shows "c' = c"
proof -
  from assms(1) have v: "valid_add ids embs docs metas"
    using collection_add_None[of c ids embs docs metas] by auto
  then have ids: "map rec_id (zip_records ids embs docs metas) = ids"
    by (simp add: valid_add_def zipped_ids)
  have "\<forall>r \<in> set (zip_records ids embs docs metas). rec_id r \<in> set (stored_ids c)"
  proof
    fix r assume "r \<in> set (zip_records ids embs docs metas)"
    then have "rec_id r \<in> set (map rec_id (zip_records ids embs docs metas))" by simp
    with ids assms(2) show "rec_id r \<in> set (stored_ids c)" by auto
  qed
  then have "filter (\<lambda>r. rec_id r \<notin> set (stored_ids c)) (zip_records ids embs docs metas) = []"
    by (simp add: filter_empty_conv)
  with assms(1) v show ?thesis
    by (simp add: collection_add_def)
qed

lemma single_add_valid: "valid_add [i] [e] [d] [m]"
  by (simp add: valid_add_def)

lemma add_individually_fst:
  "fst (add_individually em (c, n) cta) = fst (add_individually em (c, k) cta)"
proof (induction cta arbitrary: c n k)
  case Nil
  then show ?case by simp
next
  case (Cons x cta)
  show ?case
  proof (cases "embed_query em (entry_document x)")
    case None
    then show ?thesis using Cons.IH[of c n k] by simp
  next
    case (Some e)
    show ?thesis
    proof (cases "collection_add c [entry_id x] [e] [entry_document x] [entry_metadata x]")
      case None
      with Some show ?thesis using Cons.IH[of c n k] by simp
    next
      case (Some c')
      with \<open>embed_query em (entry_document x) = Some e\<close> show ?thesis
        using Cons.IH[of c' "n + 1" "k + 1"] by simp
    qed
  qed
qed

lemma add_individually_grows:
  "set (stored_ids c) \<subseteq> set (stored_ids (fst (add_individually em (c, n) cta)))"
proof (induction cta arbitrary: c n)
  case Nil
  then show ?case by simp
next
  case (Cons x cta)
  show ?case
  proof (cases "embed_query em (entry_document x)")
    case None
    then show ?thesis using Cons.IH[of c n] by simp
  next
    case (Some e)
    show ?thesis
    proof (cases "collection_add c [entry_id x] [e] [entry_document x] [entry_metadata x]")
      case None
      with Some show ?thesis using Cons.IH[of c n] by simp
    next
      case (Some c')
      have "set (stored_ids c) \<subseteq> set (stored_ids c')"
        unfolding collection_add_ids[OF Some] by auto
      with Some \<open>embed_query em (entry_document x) = Some e\<close> show ?thesis
        using Cons.IH[of c' "n + 1"] by auto
    qed
  qed
qed

lemma add_individually_stores:
  assumes "x \<in> set cta" "embed_query em (entry_document x) \<noteq> None"
  shows "entry_id x \<in> set (stored_ids (fst (add_individually em (c, n) cta)))"
  using assms
proof (induction cta arbitrary: c n)
  case Nil
  then show ?case by simp
next
  case (Cons y cta)
  show ?case
  proof (cases "embed_query em (entry_document y)")
    case None
    with Cons.prems have "x \<in> set cta" by auto
    with None Cons.IH[of c n] Cons.prems(2) show ?thesis by simp
  next
    case (Some e)
    obtain c' where c': "collection_add c [entry_id y] [e] [entry_document y] [entry_metadata y] = Some c'"
      using collection_add_None[of c "[entry_id y]" "[e]" "[entry_document y]" "[entry_metadata y]"]
        single_add_valid by auto
    have step: "fst (add_individually em (c, n) (y # cta)) = fst (add_individually em (c', n + 1) cta)"
      using Some c' by simp
    show ?thesis
    proof (cases "x = y")
      case True
      have "entry_id y \<in> set (stored_ids c')"
        unfolding collection_add_ids[OF c'] by auto
      with add_individually_grows[of c' em "n + 1" cta] True show ?thesis
        unfolding step by auto
    next
      case False
      with Cons.prems have "x \<in> set cta" by auto
      with Cons.IH[of c' "n + 1"] Cons.prems(2) show ?thesis
        unfolding step by simp
    qed
  qed
qed

lemma add_individually_fixed:
  assumes "\<And>x. x \<in> set cta \<Longrightarrow> embed_query em (entry_document x) \<noteq> None
             \<Longrightarrow> entry_id x \<in> set (stored_ids c)"
  shows "fst (add_individually em (c, n) cta) = c"
  using assms
proof (induction cta arbitrary: n)
  case Nil
  then show ?case by simp
next
  case (Cons y cta)
  have IH: "fst (add_individually em (c, k) cta) = c" for k
    using Cons.IH[of k] Cons.prems by simp
  show ?case
  proof (cases "embed_query em (entry_document y)")
    case None
    with IH show ?thesis by simp
  next
    case (Some e)
    then have "entry_id y \<in> set (stored_ids c)" using Cons.prems[of y] by simp
    then have same: "\<And>c'. collection_add c [entry_id y] [e] [entry_document y] [entry_metadata y] = Some c'
           \<Longrightarrow> c' = c"
      using collection_add_present by simp
    show ?thesis
    proof (cases "collection_add c [entry_id y] [e] [entry_document y] [entry_metadata y]")
      case None
      with Some IH show ?thesis by simp
    next
      case (Some c')
      with same have "c' = c" by simp
      with Some \<open>embed_query em (entry_document y) = Some e\<close> IH show ?thesis by simp
    qed
  qed
qed

lemma add_individually_distinct:
  "distinct (stored_ids c) \<Longrightarrow> distinct (stored_ids (fst (add_individually em (c, n) cta)))"
proof (induction cta arbitrary: c n)
  case Nil
  then show ?case by simp
next
  case (Cons y cta)
  show ?case
  proof (cases "embed_query em (entry_document y)")
    case None
    with Cons show ?thesis by simp
  next
    case (Some e)
    show ?thesis
    proof (cases "collection_add c [entry_id y] [e] [entry_document y] [entry_metadata y]")
      case None
      with Some Cons show ?thesis by simp
    next
      case (Some c')
      from collection_add_distinct[OF Some Cons.prems] have "distinct (stored_ids c')" .
      with Some \<open>embed_query em (entry_document y) = Some e\<close> Cons.IH[of c' "n + 1"]
      show ?thesis by simp
    qed
  qed
qed

lemma add_individually_twice:
  "fst (add_individually em (fst (add_individually em (c, n) cta), k) cta)
     = fst (add_individually em (c, n) cta)"
  by (rule add_individually_fixed) (rule add_individually_stores)

lemma chunks_to_add_collection:
  "chunks_to_add h (rag\<lparr>collection := c\<rparr>) docs = chunks_to_add h rag docs"
  by (simp add: chunks_to_add_def cong: if_cong)

lemma add_batch_again:
  assumes "add_batch em c cta = Some c1"
  shows "add_batch em c1 cta = Some c1"
proof -
  from assms obtain embs where embs: "embed_documents em (map entry_document cta) = Some embs"
    and add: "collection_add c (map entry_id cta) embs (map entry_document cta)
                (map entry_metadata cta) = Some c1"
    by (auto simp: add_batch_def Let_def split: option.splits)
  from add have v: "valid_add (map entry_id cta) embs (map entry_document cta) (map entry_metadata cta)"
    using collection_add_None[of c "map entry_id cta" embs "map entry_document cta" "map entry_metadata cta"]
    by auto
  then obtain c2 where c2: "collection_add c1 (map entry_id cta) embs (map entry_document cta)
                (map entry_metadata cta) = Some c2"
    by (simp add: collection_add_def)
  have "set (map entry_id cta) \<subseteq> set (stored_ids c1)"
    unfolding collection_add_ids[OF add] by auto
  from collection_add_present[OF c2 this] c2 embs show ?thesis
    by (simp add: add_batch_def Let_def)
qed

lemma add_batch_fails_again:
  assumes "add_batch em c cta = None"
  shows "add_batch em c1 cta = None"
  using assms
  by (auto simp: add_batch_def Let_def collection_add_def split: option.splits if_splits)

lemma add_documents_fst:
  "fst (add_documents h rag docs) =
     (if docs = [] then rag
      else case embeddings rag of
        None \<Rightarrow> rag
      | Some em \<Rightarrow>
          if chunks_to_add h rag docs = [] then rag
          else rag\<lparr>collection :=
                 (case add_batch em (collection rag) (chunks_to_add h rag docs) of
                    Some c' \<Rightarrow> c'
                  | None \<Rightarrow> fst (add_individually em (collection rag, 0) (chunks_to_add h rag docs)))\<rparr>)"
  by (simp add: add_documents_def Let_def split_beta split: option.splits)

lemma add_documents_twice:
  "fst (add_documents h (fst (add_documents h rag docs)) docs) = fst (add_documents h rag docs)"
proof (cases "docs = []")
  case True
  then show ?thesis by (simp add: add_documents_fst)
next
  case ne: False
  show ?thesis
  proof (cases "embeddings rag")
    case None
    with ne show ?thesis by (simp add: add_documents_fst)
  next
    case (Some em)
    let ?cta = "chunks_to_add h rag docs"
    show ?thesis
    proof (cases "?cta = []")
      case True
      with ne Some show ?thesis by (simp add: add_documents_fst)
    next
      case cta: False
      show ?thesis
      proof (cases "add_batch em (collection rag) ?cta")
        case None
        let ?c1 = "fst (add_individually em (collection rag, 0) ?cta)"
        have first: "fst (add_documents h rag docs) = rag\<lparr>collection := ?c1\<rparr>"
          using ne Some cta None by (simp add: add_documents_fst)
        have "add_batch em ?c1 ?cta = None" by (rule add_batch_fails_again[OF None])
        then have "fst (add_documents h (rag\<lparr>collection := ?c1\<rparr>) docs)
              = rag\<lparr>collection := fst (add_individually em (?c1, 0) ?cta)\<rparr>"
          using ne Some cta by (simp add: add_documents_fst chunks_to_add_collection)
        then show ?thesis
          unfolding first by (simp add: add_individually_twice)
      next
        case (Some c1)
        have first: "fst (add_documents h rag docs) = rag\<lparr>collection := c1\<rparr>"
          using ne \<open>embeddings rag = Some em\<close> cta Some by (simp add: add_documents_fst)
        have "add_batch em c1 ?cta = Some c1" by (rule add_batch_again[OF Some])
        then have "fst (add_documents h (rag\<lparr>collection := c1\<rparr>) docs) = rag\<lparr>collection := c1\<rparr>"
          using ne \<open>embeddings rag = Some em\<close> cta
          by (simp add: add_documents_fst chunks_to_add_collection)
        then show ?thesis
          unfolding first .
      qed
    qed
  qed
qed

lemma add_batch_distinct:
  assumes "add_batch em c cta = Some c1" "distinct (stored_ids c)"
  shows "distinct (stored_ids c1)"
  using assms collection_add_distinct
  by (auto simp: add_batch_def Let_def split: option.splits)

lemma add_documents_distinct:
  assumes "distinct (stored_ids (collection rag))"
  shows "distinct (stored_ids (collection (fst (add_documents h rag docs))))"
  using assms add_batch_distinct add_individually_distinct
  by (auto simp: add_documents_fst split: option.splits)

lemma chunk_ids_of_text:
  "map entry_id (chunks_to_add h rag docs)
     = map (\<lambda>e. chunk_doc_id h (entry_document e)) (chunks_to_add h rag docs)"
  by (auto simp: chunks_to_add_def)

lemma chunks_to_add_same_splitter:
  "split_text rag' = split_text rag \<Longrightarrow> chunks_to_add h rag' docs = chunks_to_add h rag docs"
  by (simp add: chunks_to_add_def cong: if_cong)

lemma add_documents_split_text:
  "split_text (fst (add_documents h rag docs)) = split_text rag"
  by (simp add: add_documents_fst split: option.splits)

lemma chunks_to_add_after_import:
  "chunks_to_add h (fst (add_documents h rag docs)) docs' = chunks_to_add h rag docs'"
  by (rule chunks_to_add_same_splitter[OF add_documents_split_text])

text \<open>
  C7. The id of a chunk is \<open>doc_\<close> followed by the digest of its text and depends on
  nothing else, so a second import of the same documents computes the same chunk ids as
  the first. It leaves the index as the first import left it: every id is stored already
  and the collection keeps one record per id. An index without duplicate ids has none
  after an import.
\<close>

theorem add_documents_reimport:
  "map entry_id (chunks_to_add h rag docs)
     = map (\<lambda>e. chunk_doc_id h (entry_document e)) (chunks_to_add h rag docs)
   \<and> chunks_to_add h (fst (add_documents h rag docs)) docs = chunks_to_add h rag docs
   \<and> fst (add_documents h (fst (add_documents h rag docs)) docs) = fst (add_documents h rag docs)
   \<and> (distinct (stored_ids (collection rag))
        \<longrightarrow> distinct (stored_ids (collection (fst (add_documents h rag docs)))))"
proof (intro conjI impI)
  show "map entry_id (chunks_to_add h rag docs)
     = map (\<lambda>e. chunk_doc_id h (entry_document e)) (chunks_to_add h rag docs)"
    by (rule chunk_ids_of_text)
  show "chunks_to_add h (fst (add_documents h rag docs)) docs = chunks_to_add h rag docs"
    by (rule chunks_to_add_after_import)
  show "fst (add_documents h (fst (add_documents h rag docs)) docs) = fst (add_documents h rag docs)"
    by (rule add_documents_twice)
  show "distinct (stored_ids (collection (fst (add_documents h rag docs))))"
    if "distinct (stored_ids (collection rag))"
    using that by (rule add_documents_distinct)
qed

lemmas index_defs =
  example_index_def example_rag_def example_documents_def example_digest_def example_embed_def
  unit_distance_def add_documents_def add_batch_def chunks_to_add_def chunk_doc_id_def
  collection_add_def valid_add_def zip_records_def stored_ids_def Let_def

theorem add_documents_reimport_witness:
  "distinct (stored_ids (collection example_rag))
   \<and> distinct (stored_ids (collection (fst (add_documents example_digest example_rag example_documents))))
   \<and> stored_ids (collection (fst (add_documents example_digest example_rag example_documents)))
       = [''doc_.eulb si yks ehT'', ''doc_.neerg si ssarG'', ''doc_.yks eht fo roloc eht si eulB'']
   \<and> stored_ids (collection (fst (add_documents example_digest
         (fst (add_documents example_digest example_rag example_documents)) example_documents)))
       = [''doc_.eulb si yks ehT'', ''doc_.neerg si ssarG'', ''doc_.yks eht fo roloc eht si eulB'']"
proof -
  have h: "distinct (stored_ids (collection example_rag))"
    by (simp add: example_rag_def stored_ids_def)
  have ids: "stored_ids (collection (fst (add_documents example_digest example_rag example_documents)))
       = [''doc_.eulb si yks ehT'', ''doc_.neerg si ssarG'', ''doc_.yks eht fo roloc eht si eulB'']"
    by (simp add: index_defs enumerate_eq_zip)
  from add_documents_reimport[of example_digest example_rag example_documents] h ids
  show ?thesis by simp
qed

section \<open>The results of query\<close>

lemma format_results_eq:
  "format_results (length pre) (map rec_document hs) (map d (pre @ hs)) (map rec_metadata (pre @ hs)) th
     = map (hit_of d) (filter (\<lambda>r. \<not> 1 - d r < th) hs)"
proof (induction hs arbitrary: pre)
  case Nil
  then show ?case by simp
next
  case (Cons r hs)
  have IH: "format_results (Suc (length pre)) (map rec_document hs) (map d (pre @ r # hs))
              (map rec_metadata (pre @ r # hs)) th
            = map (hit_of d) (filter (\<lambda>r. \<not> 1 - d r < th) hs)"
    using Cons.IH[of "pre @ [r]"] by simp
  have nth_d: "map d (pre @ r # hs) ! length pre = d r"
    by (simp add: nth_append)
  have nth_m: "map rec_metadata (pre @ r # hs) ! length pre = rec_metadata r"
    by (simp add: nth_append)
  show ?case
    using IH nth_d nth_m by (simp add: Let_def hit_of_def)
qed

lemma query_eq:
  assumes "embeddings rag = Some em" "embed_query em query_text = Some q" "0 < top_k"
  shows "query rag query_text top_k threshold =
           map (hit_of (\<lambda>r. col_space (collection rag) q (rec_embedding r)))
             (filter (\<lambda>r. \<not> 1 - col_space (collection rag) q (rec_embedding r) < threshold)
                (take (nat top_k)
                   (sort_key (\<lambda>r. col_space (collection rag) q (rec_embedding r))
                      (col_records (collection rag)))))"
proof -
  let ?d = "\<lambda>r. col_space (collection rag) q (rec_embedding r)"
  let ?hits = "take (nat top_k) (sort_key ?d (col_records (collection rag)))"
  have fr: "format_results 0 (map rec_document ?hits) (map ?d ?hits) (map rec_metadata ?hits) threshold
        = map (hit_of ?d) (filter (\<lambda>r. \<not> 1 - ?d r < threshold) ?hits)"
    using format_results_eq[of "[]" ?hits ?d threshold] by simp
  show ?thesis
  proof (cases "?hits = []")
    case True
    with assms show ?thesis
      by (simp add: query_def collection_query_def Let_def)
  next
    case False
    with assms fr show ?thesis
      by (simp add: query_def collection_query_def Let_def)
  qed
qed

lemma query_none:
  "embeddings rag = None \<Longrightarrow> query rag query_text top_k threshold = []"
  "embeddings rag = Some em \<Longrightarrow> embed_query em query_text = None
     \<Longrightarrow> query rag query_text top_k threshold = []"
  "\<not> 0 < top_k \<Longrightarrow> query rag query_text top_k threshold = []"
  by (simp_all add: query_def collection_query_def split: option.splits)

lemma descending_similarity:
  assumes "sorted (map d xs)"
  shows "sorted_wrt (\<lambda>a b. b \<le> a) (map hit_similarity (map (hit_of d) xs))"
proof -
  have "sorted_wrt (\<lambda>x y. d x \<le> d y) xs"
    using assms by (simp add: sorted_map)
  then have "sorted_wrt (\<lambda>x y. 1 - d y \<le> 1 - d x) xs"
    by (rule sorted_wrt_mono_rel[rotated]) simp
  then show ?thesis
    by (simp add: sorted_wrt_map hit_of_def)
qed

lemma query_cases:
  obtains (empty) "query rag query_text top_k threshold = []"
      "stored_similarities rag query_text = [] \<or> \<not> 0 < top_k"
  | (ranked) em q where "embeddings rag = Some em" "embed_query em query_text = Some q" "0 < top_k"
proof (cases "embeddings rag")
  case None
  then show ?thesis using empty query_none(1)[of rag] by (simp add: stored_similarities_def)
next
  case (Some em)
  show ?thesis
  proof (cases "embed_query em query_text")
    case None
    with Some show ?thesis
      using empty query_none(2)[of rag em] by (simp add: stored_similarities_def)
  next
    case q: (Some q)
    show ?thesis
    proof (cases "0 < top_k")
      case True
      with Some q show ?thesis using ranked by blast
    next
      case False
      then show ?thesis using empty query_none(3)[of top_k rag] by simp
    qed
  qed
qed

text \<open>
  C8. For every query text, \<open>top_k\<close> and threshold, the list that \<open>query\<close> returns is in
  descending order of similarity, every result has a similarity, one minus its distance,
  of at least the threshold, there are at most \<open>top_k\<close> results (none when \<open>top_k\<close> is
  not positive), and the list is empty when no stored chunk reaches the threshold.
\<close>

theorem query_ranked:
  "sorted_wrt (\<lambda>a b. b \<le> a) (map hit_similarity (query rag query_text top_k threshold))
   \<and> list_all (\<lambda>h. threshold \<le> hit_similarity h \<and> hit_similarity h = 1 - hit_distance h)
        (query rag query_text top_k threshold)
   \<and> length (query rag query_text top_k threshold) \<le> nat top_k
   \<and> (list_all (\<lambda>s. s < threshold) (stored_similarities rag query_text)
        \<longrightarrow> query rag query_text top_k threshold = [])"
proof (cases rule: query_cases[of rag query_text top_k threshold])
  case empty
  then show ?thesis by simp
next
  case (ranked em q)
  let ?d = "\<lambda>r. col_space (collection rag) q (rec_embedding r)"
  let ?hits = "take (nat top_k) (sort_key ?d (col_records (collection rag)))"
  let ?kept = "filter (\<lambda>r. \<not> 1 - ?d r < threshold) ?hits"
  have q: "query rag query_text top_k threshold = map (hit_of ?d) ?kept"
    by (rule query_eq[OF ranked])
  have "sorted (map ?d (sort_key ?d (col_records (collection rag))))"
    by (rule sorted_sort_key)
  then have "sorted (take (nat top_k) (map ?d (sort_key ?d (col_records (collection rag)))))"
    by (rule sorted_wrt_take)
  then have "sorted (map ?d ?hits)"
    by (simp add: take_map)
  then have "sorted (map ?d ?kept)"
    by (rule sorted_filter)
  then have order: "sorted_wrt (\<lambda>a b. b \<le> a) (map hit_similarity (map (hit_of ?d) ?kept))"
    by (rule descending_similarity)
  have above: "list_all (\<lambda>h. threshold \<le> hit_similarity h \<and> hit_similarity h = 1 - hit_distance h)
        (map (hit_of ?d) ?kept)"
    by (simp add: list_all_iff hit_of_def)
  have "length ?kept \<le> length ?hits"
    by (rule length_filter_le)
  then have count: "length (map (hit_of ?d) ?kept) \<le> nat top_k"
    by simp
  have none: "?kept = []"
    if low: "list_all (\<lambda>s. s < threshold) (stored_similarities rag query_text)"
  proof -
    from low ranked have all: "\<forall>r \<in> set (col_records (collection rag)). 1 - ?d r < threshold"
      by (simp add: stored_similarities_def list_all_iff)
    have "set ?hits \<subseteq> set (col_records (collection rag))"
      using set_take_subset[of "nat top_k" "sort_key ?d (col_records (collection rag))"] by simp
    with all show ?thesis
      by (auto simp: filter_empty_conv)
  qed
  from order above count none show ?thesis
    unfolding q by simp
qed

theorem query_ranked_witness:
  "list_all (\<lambda>s. s < 9 / 10) (stored_similarities example_index ''sky color'')
   \<and> query example_index ''sky color'' 3 (9 / 10) = []
   \<and> stored_similarities example_index ''sky color'' = [3 / 5, 0, 4 / 5]
   \<and> map (\<lambda>h. (hit_content h, hit_similarity h)) (query example_index ''sky color'' 3 (3 / 10))
       = [(''Blue is the color of the sky.'', 4 / 5), (''The sky is blue.'', 3 / 5)]"
proof -
  have sims: "stored_similarities example_index ''sky color'' = [3 / 5, 0, 4 / 5]"
    by (simp add: index_defs stored_similarities_def enumerate_eq_zip)
  have low: "list_all (\<lambda>s. s < 9 / 10) (stored_similarities example_index ''sky color'')"
    by (simp add: sims)
  have hits: "map (\<lambda>h. (hit_content h, hit_similarity h)) (query example_index ''sky color'' 3 (3 / 10))
       = [(''Blue is the color of the sky.'', 4 / 5), (''The sky is blue.'', 3 / 5)]"
    by (simp add: index_defs query_def collection_query_def enumerate_eq_zip)
  from query_ranked[of example_index "''sky color''" 3 "9 / 10"] low sims hits
  show ?thesis by simp
qed

end
